theory Spec2Isabelle
  imports Complex_Main
begin

section \<open>Three-point essential matrix solvers of openMVG\<close>

text \<open>
  A shallow embedding of \<^verbatim>\<open>src/openMVG/multiview/solver_essential_three_point.cpp\<close>:
  the orthographic solver \<^verbatim>\<open>ThreePointsRelativePose\<close> and the upright solver
  \<^verbatim>\<open>ThreePointUprightRelativePoseSolver::Solve\<close>.

  The orthographic solver is modelled in the arithmetic of IEEE 754 doubles: signed zeros,
  infinities and NaN are values, a division by zero gives an infinity or NaN, the root of
  a negative number is NaN, and every operation rounds its exact result once (no fused
  multiply-add, no intermediate result of a wider format). The rounding is a parameter
  \<open>rnd\<close> of the model: \<open>binary64\<close> is the rounding of the C++ \<^verbatim>\<open>double\<close> (to nearest,
  ties to even), and \<open>exact\<close> is no rounding, for the statements that hold in exact real
  arithmetic only. A statement with a free \<open>rnd\<close> holds for every rounding.

  The upright solver passes its matrix to an eigen solver of the Eigen library and the
  statements about it are about an exact nullspace vector: it is modelled over the reals.
\<close>

subsection \<open>Doubles\<close>

text \<open>A double is a finite number \<open>Fin r\<close> (\<open>Fin 0\<close> is the zero of positive sign), the
  zero of negative sign \<open>MZero\<close>, an infinity \<open>Infty s\<close> (\<open>s\<close> is the sign bit: \<open>Infty True\<close>
  is minus infinity) or \<open>NaN\<close>.\<close>

datatype double = Fin real | MZero | Infty bool | NaN

fun signbit :: "double \<Rightarrow> bool" where
  "signbit (Fin r) = (r < 0)"
| "signbit MZero = True"
| "signbit (Infty s) = s"
| "signbit NaN = False"

fun is_zero :: "double \<Rightarrow> bool" where
  "is_zero (Fin r) = (r = 0)"
| "is_zero MZero = True"
| "is_zero (Infty s) = False"
| "is_zero NaN = False"

fun is_inf :: "double \<Rightarrow> bool" where
  "is_inf (Fin r) = False"
| "is_inf MZero = False"
| "is_inf (Infty s) = True"
| "is_inf NaN = False"

fun is_finite :: "double \<Rightarrow> bool" where
  "is_finite (Fin r) = True"
| "is_finite MZero = True"
| "is_finite (Infty s) = False"
| "is_finite NaN = False"

text \<open>The real number a finite double stands for (0 for the other doubles, of which it
  is never asked).\<close>

fun val :: "double \<Rightarrow> real" where
  "val (Fin r) = r"
| "val MZero = 0"
| "val (Infty s) = 0"
| "val NaN = 0"


fun ge_zero :: "double \<Rightarrow> bool" where
  "ge_zero (Fin r) = (0 \<le> r)"
| "ge_zero MZero = True"
| "ge_zero (Infty s) = (\<not> s)"
| "ge_zero NaN = False"

definition signed_zero :: "bool \<Rightarrow> double" where
  "signed_zero s = (if s then MZero else Fin 0)"

text \<open>The double of an operation whose exact result is the real number \<open>r\<close>: an exact
  zero takes the sign \<open>s\<close> that IEEE 754 gives it, any other result is rounded.\<close>

definition rounded :: "(real \<Rightarrow> double) \<Rightarrow> bool \<Rightarrow> real \<Rightarrow> double" where
  "rounded rnd s r = (if r = 0 then signed_zero s else rnd r)"

text \<open>No rounding.\<close>

definition exact :: "real \<Rightarrow> double" where
  "exact r = Fin r"

text \<open>Rounding to the nearest binary64 number, ties to the even significand, of a real
  number \<open>r \<noteq> 0\<close>. The binary64 numbers next to \<open>r\<close> are the multiples of
  \<open>2 powi (e - 52)\<close>, for the binary exponent \<open>e\<close> of \<open>r\<close>, which is not taken below
  \<open>- 1022\<close> (the subnormal numbers are the multiples of \<open>2 powi (- 1074)\<close>). A result of
  magnitude \<open>2 ^ 1024\<close> is an overflow, a result \<open>0\<close> an underflow that keeps the sign.\<close>

definition round_to_even :: "real \<Rightarrow> int" where
  "round_to_even q =
     (let f = \<lfloor>q\<rfloor>
      in if q - of_int f < 1 / 2 then f
         else if 1 / 2 < q - of_int f then f + 1
         else if even f then f else f + 1)"

definition binary64 :: "real \<Rightarrow> double" where
  "binary64 r =
     (let e = max \<lfloor>log 2 \<bar>r\<bar>\<rfloor> (- 1022);
          u = 2 powi (e - 52);
          m = of_int (round_to_even (r / u)) * u
      in if 2 ^ 1024 \<le> \<bar>m\<bar> then Infty (r < 0)
         else if m = 0 then signed_zero (r < 0)
         else Fin m)"

text \<open>The operations \<^verbatim>\<open>-a\<close>, \<^verbatim>\<open>a + b\<close>, \<^verbatim>\<open>a - b\<close>, \<^verbatim>\<open>a * b\<close>, \<^verbatim>\<open>a / b\<close> and
  \<^verbatim>\<open>sqrt(a)\<close> of IEEE 754. NaN is absorbing; \<open>\<infinity> - \<infinity>\<close>, \<open>0 * \<infinity>\<close>, \<open>0 / 0\<close>,
  \<open>\<infinity> / \<infinity>\<close> and the root of a negative number are NaN; a non-zero number divided by
  zero is an infinity; the sign of a product or quotient is the exclusive or of the
  signs; an exact sum zero is \<open>+0\<close> unless both terms are negative.\<close>

fun fneg :: "double \<Rightarrow> double" where
  "fneg (Fin r) = (if r = 0 then MZero else Fin (- r))"
| "fneg MZero = Fin 0"
| "fneg (Infty s) = Infty (\<not> s)"
| "fneg NaN = NaN"

definition fadd :: "(real \<Rightarrow> double) \<Rightarrow> double \<Rightarrow> double \<Rightarrow> double" where
  "fadd rnd a b =
     (if a = NaN \<or> b = NaN then NaN
      else if is_inf a then (if is_inf b \<and> signbit a \<noteq> signbit b then NaN else a)
      else if is_inf b then b
      else rounded rnd (signbit a \<and> signbit b) (val a + val b))"

definition fsub :: "(real \<Rightarrow> double) \<Rightarrow> double \<Rightarrow> double \<Rightarrow> double" where
  "fsub rnd a b = fadd rnd a (fneg b)"

definition fmul :: "(real \<Rightarrow> double) \<Rightarrow> double \<Rightarrow> double \<Rightarrow> double" where
  "fmul rnd a b =
     (if a = NaN \<or> b = NaN then NaN
      else if is_inf a \<or> is_inf b
        then (if is_zero a \<or> is_zero b then NaN else Infty (signbit a \<noteq> signbit b))
      else rounded rnd (signbit a \<noteq> signbit b) (val a * val b))"

definition fdiv :: "(real \<Rightarrow> double) \<Rightarrow> double \<Rightarrow> double \<Rightarrow> double" where
  "fdiv rnd a b =
     (if a = NaN \<or> b = NaN then NaN
      else if is_inf a then (if is_inf b then NaN else Infty (signbit a \<noteq> signbit b))
      else if is_inf b then signed_zero (signbit a \<noteq> signbit b)
      else if is_zero b
        then (if is_zero a then NaN else Infty (signbit a \<noteq> signbit b))
      else rounded rnd (signbit a \<noteq> signbit b) (val a / val b))"

fun fsqrt :: "(real \<Rightarrow> double) \<Rightarrow> double \<Rightarrow> double" where
  "fsqrt rnd (Fin r) = (if r < 0 then NaN else if r = 0 then Fin 0 else rnd (sqrt r))"
| "fsqrt rnd MZero = MZero"
| "fsqrt rnd (Infty s) = (if s then NaN else Infty False)"
| "fsqrt rnd NaN = NaN"

subsection \<open>Vectors and matrices\<close>

text \<open>Eigen's fixed-size \<^verbatim>\<open>Vec2\<close>, \<^verbatim>\<open>Vec3\<close> and \<^verbatim>\<open>Vec4\<close>, with their
  accessors \<^verbatim>\<open>x()\<close>, \<^verbatim>\<open>y()\<close>, \<^verbatim>\<open>z()\<close> and \<^verbatim>\<open>operator()(i)\<close>. \<^verbatim>\<open>Vec2\<close> is the
  type of the orthographic solver's points, \<^verbatim>\<open>Vec3\<close> and \<^verbatim>\<open>Vec4\<close> are used by the
  upright solver.\<close>

datatype Vec2 = Vec2 (v2_x: double) (v2_y: double)

datatype Vec3 = Vec3 (v3_x: real) (v3_y: real) (v3_z: real)

datatype Vec4 = Vec4 (v4_0: real) (v4_1: real) (v4_2: real) (v4_3: real)

text \<open>\<^verbatim>\<open>Vec2 - Vec2\<close>, coefficient by coefficient.\<close>

definition sub2 :: "(real \<Rightarrow> double) \<Rightarrow> Vec2 \<Rightarrow> Vec2 \<Rightarrow> Vec2" where
  "sub2 rnd p q = Vec2 (fsub rnd (v2_x p) (v2_x q)) (fsub rnd (v2_y p) (v2_y q))"

text \<open>\<^verbatim>\<open>Mat3\<close>: nine coefficients, field \<open>mij\<close> is the coefficient of row \<open>i\<close>, column
  \<open>j\<close>. The fields are listed in row-major order, the order of Eigen's comma
  initialiser. The coefficients are doubles for the orthographic solver and reals for the
  upright solver.\<close>

record 'a Mat3 =
  m00 :: 'a
  m01 :: 'a
  m02 :: 'a
  m10 :: 'a
  m11 :: 'a
  m12 :: 'a
  m20 :: 'a
  m21 :: 'a
  m22 :: 'a

text \<open>\<^verbatim>\<open>Mat2X\<close> and \<^verbatim>\<open>Mat3X\<close> have a dynamic number of columns: the list of their
  columns. \<^verbatim>\<open>m.col(i)\<close> is defined for \<open>i < cols\<close> only (Eigen asserts the index;
  reading past the end is undefined in C++), so each solver below first checks that the
  columns it reads exist and has no result (\<open>None\<close>) otherwise.\<close>

type_synonym Mat2X = "Vec2 list"

type_synonym Mat3X = "Vec3 list"

definition col :: "'a list \<Rightarrow> nat \<Rightarrow> 'a" where
  "col m i = m ! i"

subsection \<open>The orthographic solver\<close>

text \<open>The local constants of \<^verbatim>\<open>ThreePointsRelativePose\<close>, each as a function of the
  rounding and of the two inputs, in the order of the source. Each C++ operation is one
  operation of the model, in the order in which C++ groups them (\<^verbatim>\<open>a + b - c\<close> is
  \<^verbatim>\<open>(a + b) - c\<close>, \<^verbatim>\<open>-a * b\<close> is \<^verbatim>\<open>(-a) * b\<close>).\<close>

definition xd1 :: "(real \<Rightarrow> double) \<Rightarrow> Mat2X \<Rightarrow> Vec2" where
  "xd1 rnd x1 = sub2 rnd (col x1 1) (col x1 0)"

definition yd1 :: "(real \<Rightarrow> double) \<Rightarrow> Mat2X \<Rightarrow> Vec2" where
  "yd1 rnd x1 = sub2 rnd (col x1 2) (col x1 0)"

definition xd2 :: "(real \<Rightarrow> double) \<Rightarrow> Mat2X \<Rightarrow> Vec2" where
  "xd2 rnd x2 = sub2 rnd (col x2 1) (col x2 0)"

definition yd2 :: "(real \<Rightarrow> double) \<Rightarrow> Mat2X \<Rightarrow> Vec2" where
  "yd2 rnd x2 = sub2 rnd (col x2 2) (col x2 0)"

definition denom :: "(real \<Rightarrow> double) \<Rightarrow> Mat2X \<Rightarrow> double" where
  "denom rnd x1 =
     fsub rnd (fmul rnd (v2_x (xd1 rnd x1)) (v2_y (yd1 rnd x1)))
              (fmul rnd (v2_y (xd1 rnd x1)) (v2_x (yd1 rnd x1)))"

definition aac :: "(real \<Rightarrow> double) \<Rightarrow> Mat2X \<Rightarrow> Mat2X \<Rightarrow> double" where
  "aac rnd x1 x2 =
     fdiv rnd (fsub rnd (fmul rnd (v2_y (xd1 rnd x1)) (v2_x (yd2 rnd x2)))
                        (fmul rnd (v2_x (xd2 rnd x2)) (v2_y (yd1 rnd x1))))
              (denom rnd x1)"

definition aad :: "(real \<Rightarrow> double) \<Rightarrow> Mat2X \<Rightarrow> Mat2X \<Rightarrow> double" where
  "aad rnd x1 x2 =
     fdiv rnd (fsub rnd (fmul rnd (v2_y (xd1 rnd x1)) (v2_y (yd2 rnd x2)))
                        (fmul rnd (v2_y (xd2 rnd x2)) (v2_y (yd1 rnd x1))))
              (denom rnd x1)"

definition bbc :: "(real \<Rightarrow> double) \<Rightarrow> Mat2X \<Rightarrow> Mat2X \<Rightarrow> double" where
  "bbc rnd x1 x2 =
     fdiv rnd (fsub rnd (fmul rnd (v2_x (xd2 rnd x2)) (v2_x (yd1 rnd x1)))
                        (fmul rnd (v2_x (xd1 rnd x1)) (v2_x (yd2 rnd x2))))
              (denom rnd x1)"

definition bbd :: "(real \<Rightarrow> double) \<Rightarrow> Mat2X \<Rightarrow> Mat2X \<Rightarrow> double" where
  "bbd rnd x1 x2 =
     fdiv rnd (fsub rnd (fmul rnd (v2_y (xd2 rnd x2)) (v2_x (yd1 rnd x1)))
                        (fmul rnd (v2_x (xd1 rnd x1)) (v2_y (yd2 rnd x2))))
              (denom rnd x1)"

definition aac_sq :: "(real \<Rightarrow> double) \<Rightarrow> Mat2X \<Rightarrow> Mat2X \<Rightarrow> double" where
  "aac_sq rnd x1 x2 = fmul rnd (aac rnd x1 x2) (aac rnd x1 x2)"

definition dd_2 :: "(real \<Rightarrow> double) \<Rightarrow> Mat2X \<Rightarrow> Mat2X \<Rightarrow> double" where
  "dd_2 rnd x1 x2 =
     fadd rnd
       (fsub rnd
          (fadd rnd (fneg (aac_sq rnd x1 x2)) (fmul rnd (aad rnd x1 x2) (aad rnd x1 x2)))
          (fmul rnd (bbc rnd x1 x2) (bbc rnd x1 x2)))
       (fmul rnd (bbd rnd x1 x2) (bbd rnd x1 x2))"

definition dd_1c :: "(real \<Rightarrow> double) \<Rightarrow> Mat2X \<Rightarrow> Mat2X \<Rightarrow> double" where
  "dd_1c rnd x1 x2 =
     fadd rnd (fmul rnd (fmul rnd (Fin 2) (aac rnd x1 x2)) (aad rnd x1 x2))
              (fmul rnd (fmul rnd (Fin 2) (bbc rnd x1 x2)) (bbd rnd x1 x2))"

definition dd_0 :: "(real \<Rightarrow> double) \<Rightarrow> Mat2X \<Rightarrow> Mat2X \<Rightarrow> double" where
  "dd_0 rnd x1 x2 =
     fsub rnd (fadd rnd (aac_sq rnd x1 x2) (fmul rnd (bbc rnd x1 x2) (bbc rnd x1 x2))) (Fin 1)"

definition d4_4 :: "(real \<Rightarrow> double) \<Rightarrow> Mat2X \<Rightarrow> Mat2X \<Rightarrow> double" where
  "d4_4 rnd x1 x2 =
     fadd rnd (fmul rnd (dd_1c rnd x1 x2) (dd_1c rnd x1 x2))
              (fmul rnd (dd_2 rnd x1 x2) (dd_2 rnd x1 x2))"

definition d4_2 :: "(real \<Rightarrow> double) \<Rightarrow> Mat2X \<Rightarrow> Mat2X \<Rightarrow> double" where
  "d4_2 rnd x1 x2 =
     fadd rnd (fmul rnd (fneg (dd_1c rnd x1 x2)) (dd_1c rnd x1 x2))
              (fmul rnd (fmul rnd (Fin 2) (dd_0 rnd x1 x2)) (dd_2 rnd x1 x2))"

definition d4_0 :: "(real \<Rightarrow> double) \<Rightarrow> Mat2X \<Rightarrow> Mat2X \<Rightarrow> double" where
  "d4_0 rnd x1 x2 = fmul rnd (dd_0 rnd x1 x2) (dd_0 rnd x1 x2)"

text \<open>The argument of the square root of \<^verbatim>\<open>tmp\<close>, \<^verbatim>\<open>d4_2 * d4_2 - 4.0 * d4_4 * d4_0\<close>,
  has no name in the source.\<close>

definition discriminant :: "(real \<Rightarrow> double) \<Rightarrow> Mat2X \<Rightarrow> Mat2X \<Rightarrow> double" where
  "discriminant rnd x1 x2 =
     fsub rnd (fmul rnd (d4_2 rnd x1 x2) (d4_2 rnd x1 x2))
              (fmul rnd (fmul rnd (Fin 4) (d4_4 rnd x1 x2)) (d4_0 rnd x1 x2))"

definition tmp :: "(real \<Rightarrow> double) \<Rightarrow> Mat2X \<Rightarrow> Mat2X \<Rightarrow> double" where
  "tmp rnd x1 x2 = fsqrt rnd (discriminant rnd x1 x2)"

definition tmp_csol :: "(real \<Rightarrow> double) \<Rightarrow> Mat2X \<Rightarrow> Mat2X \<Rightarrow> double" where
  "tmp_csol rnd x1 x2 =
     fadd rnd
       (fsub rnd
          (fadd rnd (fneg (aac_sq rnd x1 x2)) (fmul rnd (aad rnd x1 x2) (aad rnd x1 x2)))
          (fmul rnd (bbc rnd x1 x2) (bbc rnd x1 x2)))
       (fmul rnd (bbd rnd x1 x2) (bbd rnd x1 x2))"

text \<open>The lambda \<^verbatim>\<open>ComputeEssentialMatrix\<close> captures the locals by reference; here it
  takes the inputs they are computed from (its argument \<^verbatim>\<open>root\<close> is \<open>rt\<close> here,
  \<open>root\<close> being the n-th root of HOL). Its own locals come first.
  \<^verbatim>\<open>x1(0,0)\<close> and \<^verbatim>\<open>x1(1,0)\<close> are the two coefficients of column 0.\<close>

definition dsol :: "(real \<Rightarrow> double) \<Rightarrow> Mat2X \<Rightarrow> Mat2X \<Rightarrow> double \<Rightarrow> double" where
  "dsol rnd x1 x2 rt = fsqrt rnd (fdiv rnd (fdiv rnd (fneg rt) (d4_4 rnd x1 x2)) (Fin 2))"

definition csol :: "(real \<Rightarrow> double) \<Rightarrow> Mat2X \<Rightarrow> Mat2X \<Rightarrow> double \<Rightarrow> double" where
  "csol rnd x1 x2 rt =
     fdiv rnd
       (fneg
          (fsub rnd
             (fadd rnd
                (fadd rnd
                   (fmul rnd (fmul rnd (tmp_csol rnd x1 x2) (dsol rnd x1 x2 rt)) (dsol rnd x1 x2 rt))
                   (aac_sq rnd x1 x2))
                (fmul rnd (bbc rnd x1 x2) (bbc rnd x1 x2)))
             (Fin 1)))
       (fadd rnd
          (fmul rnd (fmul rnd (fmul rnd (Fin 2) (aac rnd x1 x2)) (aad rnd x1 x2)) (dsol rnd x1 x2 rt))
          (fmul rnd (fmul rnd (fmul rnd (Fin 2) (bbc rnd x1 x2)) (bbd rnd x1 x2)) (dsol rnd x1 x2 rt)))"

definition asol :: "(real \<Rightarrow> double) \<Rightarrow> Mat2X \<Rightarrow> Mat2X \<Rightarrow> double \<Rightarrow> double" where
  "asol rnd x1 x2 rt =
     fadd rnd (fmul rnd (aac rnd x1 x2) (csol rnd x1 x2 rt))
              (fmul rnd (aad rnd x1 x2) (dsol rnd x1 x2 rt))"

definition bsol :: "(real \<Rightarrow> double) \<Rightarrow> Mat2X \<Rightarrow> Mat2X \<Rightarrow> double \<Rightarrow> double" where
  "bsol rnd x1 x2 rt =
     fadd rnd (fmul rnd (bbc rnd x1 x2) (csol rnd x1 x2 rt))
              (fmul rnd (bbd rnd x1 x2) (dsol rnd x1 x2 rt))"

definition esol :: "(real \<Rightarrow> double) \<Rightarrow> Mat2X \<Rightarrow> Mat2X \<Rightarrow> double \<Rightarrow> double" where
  "esol rnd x1 x2 rt =
     fsub rnd
       (fsub rnd
          (fsub rnd (fmul rnd (fneg (asol rnd x1 x2 rt)) (v2_x (col x1 0)))
                    (fmul rnd (bsol rnd x1 x2 rt) (v2_y (col x1 0))))
          (fmul rnd (csol rnd x1 x2 rt) (v2_x (col x2 0))))
       (fmul rnd (dsol rnd x1 x2 rt) (v2_y (col x2 0)))"

definition ComputeEssentialMatrix ::
  "(real \<Rightarrow> double) \<Rightarrow> Mat2X \<Rightarrow> Mat2X \<Rightarrow> double \<Rightarrow> double Mat3" where
  "ComputeEssentialMatrix rnd x1 x2 rt =
     \<lparr> m00 = Fin 0, m01 = Fin 0, m02 = asol rnd x1 x2 rt,
       m10 = Fin 0, m11 = Fin 0, m12 = bsol rnd x1 x2 rt,
       m20 = csol rnd x1 x2 rt, m21 = dsol rnd x1 x2 rt, m22 = esol rnd x1 x2 rt \<rparr>"

text \<open>The solver appends to the vector \<^verbatim>\<open>*E\<close>: the model takes the vector as it is
  before the call and returns it as it is after.\<close>

definition ThreePointsRelativePose ::
  "(real \<Rightarrow> double) \<Rightarrow> Mat2X \<Rightarrow> Mat2X \<Rightarrow> double Mat3 list \<Rightarrow> double Mat3 list option" where
  "ThreePointsRelativePose rnd x1 x2 E =
     (if length x1 < 3 \<or> length x2 < 3 then None
      else
        let E1 = E @ [ComputeEssentialMatrix rnd x1 x2
                        (fadd rnd (d4_2 rnd x1 x2) (tmp rnd x1 x2))];
            E2 = E1 @ [ComputeEssentialMatrix rnd x1 x2
                         (fsub rnd (d4_2 rnd x1 x2) (tmp rnd x1 x2))]
        in Some E2)"

subsection \<open>The upright solver\<close>

text \<open>\<^verbatim>\<open>Eigen::Matrix<double, 3, 4>\<close> by its three rows, and
  \<^verbatim>\<open>Eigen::Matrix<double, 4, 4>\<close> by its four rows.\<close>

datatype Mat34 = Mat34 (row_0: Vec4) (row_1: Vec4) (row_2: Vec4)

datatype Mat4 = Mat4 Vec4 Vec4 Vec4 Vec4

text \<open>The row that iteration \<open>i\<close> of the loop writes into \<^verbatim>\<open>A\<close>.\<close>

definition A_row :: "Mat3X \<Rightarrow> Mat3X \<Rightarrow> nat \<Rightarrow> Vec4" where
  "A_row bearing_a bearing_b i =
     (let bearing_a_i = col bearing_a i;
          bearing_b_i = col bearing_b i
      in Vec4 (v3_x bearing_a_i * v3_y bearing_b_i) (- v3_z bearing_a_i * v3_y bearing_b_i)
              (- v3_x bearing_b_i * v3_y bearing_a_i) (- v3_z bearing_b_i * v3_y bearing_a_i))"

text \<open>The loop \<^verbatim>\<open>for (const int i : {0,1,2})\<close> writes each row once: unrolled.\<close>

definition action_matrix :: "Mat3X \<Rightarrow> Mat3X \<Rightarrow> Mat34" where
  "action_matrix bearing_a bearing_b =
     Mat34 (A_row bearing_a bearing_b 0) (A_row bearing_a bearing_b 1) (A_row bearing_a bearing_b 2)"

text \<open>\<^verbatim>\<open>A.transpose() * A\<close>: the coefficient at \<open>(j, k)\<close> sums, over the rows of
  \<^verbatim>\<open>A\<close>, the product of the row's coefficients \<open>j\<close> and \<open>k\<close>.\<close>

definition AtA_coeff :: "Mat34 \<Rightarrow> (Vec4 \<Rightarrow> real) \<Rightarrow> (Vec4 \<Rightarrow> real) \<Rightarrow> real" where
  "AtA_coeff A f g =
     f (row_0 A) * g (row_0 A) + f (row_1 A) * g (row_1 A) + f (row_2 A) * g (row_2 A)"

definition transpose_times :: "Mat34 \<Rightarrow> Mat4" where
  "transpose_times A =
     Mat4 (Vec4 (AtA_coeff A v4_0 v4_0) (AtA_coeff A v4_0 v4_1) (AtA_coeff A v4_0 v4_2) (AtA_coeff A v4_0 v4_3))
          (Vec4 (AtA_coeff A v4_1 v4_0) (AtA_coeff A v4_1 v4_1) (AtA_coeff A v4_1 v4_2) (AtA_coeff A v4_1 v4_3))
          (Vec4 (AtA_coeff A v4_2 v4_0) (AtA_coeff A v4_2 v4_1) (AtA_coeff A v4_2 v4_2) (AtA_coeff A v4_2 v4_3))
          (Vec4 (AtA_coeff A v4_3 v4_0) (AtA_coeff A v4_3 v4_1) (AtA_coeff A v4_3 v4_2) (AtA_coeff A v4_3 v4_3))"

text \<open>\<^verbatim>\<open>Eigen::SelfAdjointEigenSolver\<close> belongs to the Eigen library, not to this
  repository. The model takes it as the parameter \<open>leftCol\<close>: the function from the
  symmetric matrix to \<^verbatim>\<open>solver.eigenvectors().leftCols<1>()\<close>, the first column of
  the eigenvectors (Eigen sorts the eigenvalues in increasing order). Nothing is
  assumed of it.\<close>

definition nullspace :: "(Mat4 \<Rightarrow> Vec4) \<Rightarrow> Mat3X \<Rightarrow> Mat3X \<Rightarrow> Vec4" where
  "nullspace leftCol bearing_a bearing_b =
     leftCol (transpose_times (action_matrix bearing_a bearing_b))"

definition Mat3_Zero :: "real Mat3" where
  "Mat3_Zero = \<lparr> m00 = 0, m01 = 0, m02 = 0, m10 = 0, m11 = 0, m12 = 0, m20 = 0, m21 = 0, m22 = 0 \<rparr>"

text \<open>The matrix \<^verbatim>\<open>E\<close> of \<^verbatim>\<open>Solve\<close>: zero, then four coefficients assigned in
  the order of the source.\<close>

definition upright_E :: "(Mat4 \<Rightarrow> Vec4) \<Rightarrow> Mat3X \<Rightarrow> Mat3X \<Rightarrow> real Mat3" where
  "upright_E leftCol bearing_a bearing_b =
     (let n = nullspace leftCol bearing_a bearing_b;
          E0 = Mat3_Zero;
          E1 = E0\<lparr>m01 := v4_2 n\<rparr>;
          E2 = E1\<lparr>m10 := - v4_0 n\<rparr>;
          E3 = E2\<lparr>m12 := v4_1 n\<rparr>;
          E4 = E3\<lparr>m21 := v4_3 n\<rparr>
      in E4)"

text \<open>\<^verbatim>\<open>ThreePointUprightRelativePoseSolver::Solve\<close>.\<close>

definition Solve :: "(Mat4 \<Rightarrow> Vec4) \<Rightarrow> Mat3X \<Rightarrow> Mat3X \<Rightarrow> real Mat3 list \<Rightarrow> real Mat3 list option" where
  "Solve leftCol bearing_a bearing_b pvec_E =
     (if length bearing_a < 3 \<or> length bearing_b < 3 then None
      else Some (pvec_E @ [upright_E leftCol bearing_a bearing_b]))"

subsection \<open>The epipolar residual of the upright solver\<close>






subsection \<open>The epipolar residual of the orthographic solver\<close>

text \<open>The orthographic epipolar residual of a pair \<open>p1\<close> (first image), \<open>p2\<close>
  (second image) for a matrix \<open>M\<close>: the bilinear form of the two homogeneous points
  \<open>(x, y, 1)\<close>, the first-image point on the left, computed in the arithmetic of the
  model. For a matrix of the solver's layout with finite coefficients it is, in exact
  arithmetic, \<open>asol * p1.x + bsol * p1.y + csol * p2.x + dsol * p2.y + esol\<close>, the linear
  relation from which \<^verbatim>\<open>esol\<close> is computed.\<close>

definition dot3d ::
  "(real \<Rightarrow> double) \<Rightarrow> double \<Rightarrow> double \<Rightarrow> double \<Rightarrow> double \<Rightarrow> double \<Rightarrow> double \<Rightarrow> double" where
  "dot3d rnd a1 a2 a3 b1 b2 b3 =
     fadd rnd (fadd rnd (fmul rnd a1 b1) (fmul rnd a2 b2)) (fmul rnd a3 b3)"

definition ortho_residual :: "(real \<Rightarrow> double) \<Rightarrow> double Mat3 \<Rightarrow> Vec2 \<Rightarrow> Vec2 \<Rightarrow> double" where
  "ortho_residual rnd M p1 p2 =
     dot3d rnd (v2_x p1) (v2_y p1) (Fin 1)
       (dot3d rnd (m00 M) (m01 M) (m02 M) (v2_x p2) (v2_y p2) (Fin 1))
       (dot3d rnd (m10 M) (m11 M) (m12 M) (v2_x p2) (v2_y p2) (Fin 1))
       (dot3d rnd (m20 M) (m21 M) (m22 M) (v2_x p2) (v2_y p2) (Fin 1))"

definition finite2 :: "Vec2 \<Rightarrow> bool" where
  "finite2 p \<longleftrightarrow> is_finite (v2_x p) \<and> is_finite (v2_y p)"

definition finite_entries :: "double Mat3 \<Rightarrow> bool" where
  "finite_entries M \<longleftrightarrow>
     is_finite (m00 M) \<and> is_finite (m01 M) \<and> is_finite (m02 M) \<and>
     is_finite (m10 M) \<and> is_finite (m11 M) \<and> is_finite (m12 M) \<and>
     is_finite (m20 M) \<and> is_finite (m21 M) \<and> is_finite (m22 M)"

text \<open>What the specification says of how the candidate \<open>M\<close> is recovered from the root
  \<open>rt\<close>: \<open>dsol = sqrt(-root / d4_4 / 2)\<close>, \<open>asol = aac * csol + aad * dsol\<close> and
  \<open>bsol = bbc * csol + bbd * dsol\<close>.\<close>

definition recovered_from ::
  "(real \<Rightarrow> double) \<Rightarrow> Mat2X \<Rightarrow> Mat2X \<Rightarrow> double \<Rightarrow> double Mat3 \<Rightarrow> bool" where
  "recovered_from rnd x1 x2 rt M \<longleftrightarrow>
     m21 M = fsqrt rnd (fdiv rnd (fdiv rnd (fneg rt) (d4_4 rnd x1 x2)) (Fin 2)) \<and>
     m02 M = fadd rnd (fmul rnd (aac rnd x1 x2) (m20 M)) (fmul rnd (aad rnd x1 x2) (m21 M)) \<and>
     m12 M = fadd rnd (fmul rnd (bbc rnd x1 x2) (m20 M)) (fmul rnd (bbd rnd x1 x2) (m21 M))"


text \<open>The 2D cross product (determinant) of two vectors, in the arithmetic of the model,
  and collinearity of three points of the plane with finite coordinates: some line
  \<open>a x + b y + c = 0\<close> passes through the three.\<close>

definition cross2 :: "(real \<Rightarrow> double) \<Rightarrow> Vec2 \<Rightarrow> Vec2 \<Rightarrow> double" where
  "cross2 rnd u v = fsub rnd (fmul rnd (v2_x u) (v2_y v)) (fmul rnd (v2_y u) (v2_x v))"

definition on_line :: "real \<Rightarrow> real \<Rightarrow> real \<Rightarrow> Vec2 \<Rightarrow> bool" where
  "on_line a b c p \<longleftrightarrow> a * val (v2_x p) + b * val (v2_y p) + c = 0"

definition collinear3 :: "Vec2 \<Rightarrow> Vec2 \<Rightarrow> Vec2 \<Rightarrow> bool" where
  "collinear3 p q r \<longleftrightarrow>
     (\<exists>a b c. (a, b) \<noteq> (0, 0) \<and> on_line a b c p \<and> on_line a b c q \<and> on_line a b c r)"

subsection \<open>Concrete samples\<close>

text \<open>An orthographic sample: three points of space seen by two orthographic cameras,
  the second rotated and shifted. In exact arithmetic all the intermediate values are
  rational.\<close>

definition ex_x1 :: Mat2X where
  "ex_x1 = [Vec2 (Fin 0) (Fin (- 1)), Vec2 (Fin (- 2)) (Fin 0), Vec2 (Fin 2) (Fin 2)]"

definition ex_x2 :: Mat2X where
  "ex_x2 = [Vec2 (Fin 1) (Fin 1), Vec2 (Fin (- 9 / 5)) (Fin 2), Vec2 (Fin (11 / 5)) (Fin 4)]"

text \<open>The same sample with a fourth column in each image.\<close>

definition ex_x1_4 :: Mat2X where
  "ex_x1_4 = [Vec2 (Fin 0) (Fin (- 1)), Vec2 (Fin (- 2)) (Fin 0), Vec2 (Fin 2) (Fin 2),
              Vec2 (Fin 7) NaN]"

definition ex_x2_4 :: Mat2X where
  "ex_x2_4 = [Vec2 (Fin 1) (Fin 1), Vec2 (Fin (- 9 / 5)) (Fin 2), Vec2 (Fin (11 / 5)) (Fin 4),
              Vec2 (Fin (- 3)) (Fin 8)]"

text \<open>A vector that holds one matrix before the call.\<close>

definition ex_prior :: "double Mat3 list" where
  "ex_prior = [\<lparr> m00 = Fin 1, m01 = Fin 2, m02 = Fin 3, m10 = Fin 4, m11 = NaN, m12 = Fin 6,
                 m20 = Fin 7, m21 = Fin 8, m22 = MZero \<rparr>]"

text \<open>A degenerate first image: three points of the line \<open>y = x\<close>.\<close>

definition deg_x1 :: Mat2X where
  "deg_x1 = [Vec2 (Fin 0) (Fin 0), Vec2 (Fin 1) (Fin 1), Vec2 (Fin 2) (Fin 2)]"

text \<open>A sample of binary64 numbers with a non-degenerate first image, a discriminant
  zero and a quotient \<open>0 / 0\<close> in \<^verbatim>\<open>csol\<close>; no operation on it rounds.\<close>

definition nan_x1 :: Mat2X where
  "nan_x1 = [Vec2 (Fin 0) (Fin 0), Vec2 (Fin 1) (Fin 0), Vec2 (Fin 0) (Fin 1)]"

definition nan_x2 :: Mat2X where
  "nan_x2 = [Vec2 (Fin 0) (Fin 0), Vec2 (Fin (1 / 2)) (Fin 0), Vec2 (Fin 0) (Fin 1)]"


text \<open>A first image of binary64 numbers that are not collinear, and so small that the
  products of their differences underflow.\<close>

definition tiny :: real where
  "tiny = 2 powi (- 600)"

definition tiny_x1 :: Mat2X where
  "tiny_x1 = [Vec2 (Fin 0) (Fin 0), Vec2 (Fin tiny) (Fin 0), Vec2 (Fin 0) (Fin tiny)]"

text \<open>An upright sample: points \<open>X\<close> of space as bearings of frame A, and
  \<open>R X + t\<close> (scaled by 10) as bearings of frame B, for the rotation \<open>R\<close> about the
  vertical axis with cosine \<open>3/5\<close> and sine \<open>4/5\<close> and \<open>t = (1/2, 0, 1/2)\<close>.
  \<open>ex_leftCol\<close> returns the unit vector of the nullspace of the sample's matrix.\<close>

definition ex_a :: Mat3X where
  "ex_a = [Vec3 1 1 2, Vec3 0 2 5, Vec3 (- 1) 1 3]"

definition ex_b :: Mat3X where
  "ex_b = [Vec3 27 10 9, Vec3 45 20 35, Vec3 23 10 31]"

definition ex_a_4 :: Mat3X where
  "ex_a_4 = [Vec3 1 1 2, Vec3 0 2 5, Vec3 (- 1) 1 3, Vec3 2 (- 1) 4]"

definition ex_b_4 :: Mat3X where
  "ex_b_4 = [Vec3 27 10 9, Vec3 45 20 35, Vec3 23 10 31, Vec3 49 (- 10) 13]"

definition ex_leftCol :: "Mat4 \<Rightarrow> Vec4" where
  "ex_leftCol M = Vec4 (- 7 / 10) (1 / 10) (- 1 / 2) (1 / 2)"

section \<open>Properties\<close>

subsection \<open>General facts\<close>

lemma ThreePointsRelativePose_Some:
  assumes "3 \<le> length x1" and "3 \<le> length x2"
  shows "ThreePointsRelativePose rnd x1 x2 E =
           Some (E @ [ComputeEssentialMatrix rnd x1 x2 (fadd rnd (d4_2 rnd x1 x2) (tmp rnd x1 x2)),
                      ComputeEssentialMatrix rnd x1 x2 (fsub rnd (d4_2 rnd x1 x2) (tmp rnd x1 x2))])"
  using assms by (simp add: ThreePointsRelativePose_def Let_def)

lemma Solve_Some:
  assumes "3 \<le> length bearing_a" and "3 \<le> length bearing_b"
  shows "Solve leftCol bearing_a bearing_b pvec_E =
           Some (pvec_E @ [upright_E leftCol bearing_a bearing_b])"
  using assms by (simp add: Solve_def)

lemma upright_E_eq:
  "upright_E leftCol bearing_a bearing_b =
     \<lparr> m00 = 0, m01 = v4_2 (nullspace leftCol bearing_a bearing_b), m02 = 0,
       m10 = - v4_0 (nullspace leftCol bearing_a bearing_b), m11 = 0,
       m12 = v4_1 (nullspace leftCol bearing_a bearing_b),
       m20 = 0, m21 = v4_3 (nullspace leftCol bearing_a bearing_b), m22 = 0 \<rparr>"
  by (simp add: upright_E_def Mat3_Zero_def Let_def)

text \<open>NaN is absorbing.\<close>

lemma NaN_absorbing:
  "fneg NaN = NaN" "fsqrt rnd NaN = NaN"
  "fadd rnd NaN b = NaN" "fadd rnd a NaN = NaN"
  "fsub rnd NaN b = NaN" "fsub rnd a NaN = NaN"
  "fmul rnd NaN b = NaN" "fmul rnd a NaN = NaN"
  "fdiv rnd NaN b = NaN" "fdiv rnd a NaN = NaN"
  by (simp_all add: fadd_def fsub_def fmul_def fdiv_def)

text \<open>The operations, unfolded: for the evaluation of a sample.\<close>

lemmas operations = fadd_def fsub_def fmul_def fdiv_def rounded_def exact_def signed_zero_def

text \<open>In exact arithmetic an operation on finite doubles is the operation on the real
  numbers they stand for.\<close>

lemma exact_finite:
  assumes "is_finite a" and "is_finite b"
  shows "is_finite (fadd exact a b)" and "val (fadd exact a b) = val a + val b"
    and "is_finite (fsub exact a b)" and "val (fsub exact a b) = val a - val b"
    and "is_finite (fmul exact a b)" and "val (fmul exact a b) = val a * val b"
  using assms by (cases a; cases b; simp add: operations)+

lemma fneg_finite:
  assumes "is_finite a"
  shows "is_finite (fneg a)" and "val (fneg a) = - val a"
  using assms by (cases a; simp)+

text \<open>Whatever the rounding, a sum, difference or product that is finite has finite
  operands.\<close>

lemma finite_operands:
  "is_finite (fadd rnd a b) \<Longrightarrow> is_finite a \<and> is_finite b"
  "is_finite (fsub rnd a b) \<Longrightarrow> is_finite a \<and> is_finite b"
  "is_finite (fmul rnd a b) \<Longrightarrow> is_finite a \<and> is_finite b"
  by (cases a; cases b; simp add: fadd_def fsub_def fmul_def split: if_splits)+

lemma is_zero_iff_val: "is_finite d \<Longrightarrow> is_zero d \<longleftrightarrow> val d = 0"
  by (cases d) simp_all

subsection \<open>Rounding of powers of two to binary64\<close>

lemma log2_powi: "log 2 (2 powi k) = real_of_int k"
proof -
  have "(2::real) powi k = 2 powr (real_of_int k)"
    by (simp add: powr_real_of_int')
  then show ?thesis by simp
qed

lemma round_to_even_of_int: "round_to_even (of_int n) = n"
  by (simp add: round_to_even_def)

lemma round_to_even_small:
  assumes "0 \<le> q" and "q < 1 / 2"
  shows "round_to_even q = 0"
proof -
  from assms have "\<lfloor>q\<rfloor> = 0" by linarith
  with assms show ?thesis by (simp add: round_to_even_def)
qed

lemma quotient_of_product:
  fixes a b c :: real
  assumes "b \<noteq> 0" and "a = c * b"
  shows "a / b = c"
  using assms by simp

lemma powi_split: "(2::real) powi (j + k) = 2 powi j * 2 powi k"
  by (rule power_int_add) simp

lemma binary64_powi_normal:
  assumes "- 1022 \<le> k" and "k \<le> 1023"
  shows "binary64 (2 powi k) = Fin (2 powi k)"
proof -
  let ?u = "(2::real) powi (k - 52)"
  have e: "max \<lfloor>log 2 \<bar>2 powi k :: real\<bar>\<rfloor> (- 1022) = k"
    using assms by (simp add: log2_powi)
  have u: "?u \<noteq> 0"
    by simp
  have "(2::real) powi k = 2 powi (52 + (k - 52))"
    by simp
  also have "\<dots> = 2 powi 52 * ?u"
    by (rule powi_split)
  also have "(2::real) powi 52 = of_int (2 ^ 52)"
    by simp
  finally have split: "(2::real) powi k = of_int (2 ^ 52) * ?u" .
  have q: "(2::real) powi k / ?u = of_int (2 ^ 52)"
    by (rule quotient_of_product [OF u split])
  have m: "of_int (round_to_even ((2::real) powi k / ?u)) * ?u = 2 powi k"
    unfolding q round_to_even_of_int using split by simp
  have "(2::real) powi k < 2 powi 1024"
    using assms by (intro power_int_strict_increasing) auto
  then have lt: "\<not> (2::real) ^ 1024 \<le> \<bar>2 powi k\<bar>"
    by simp
  have nz: "(2::real) powi k \<noteq> 0"
    by simp
  show ?thesis
    unfolding binary64_def Let_def e m using lt nz by simp
qed

lemma binary64_powi_underflow:
  assumes "k < - 1075"
  shows "binary64 (2 powi k) = Fin 0"
proof -
  let ?u = "(2::real) powi (- 1022 - 52)"
  have e: "max \<lfloor>log 2 \<bar>2 powi k :: real\<bar>\<rfloor> (- 1022) = - 1022"
    using assms by (simp add: log2_powi)
  have u: "?u \<noteq> 0"
    by (rule power_int_not_zero) simp
  have "(2::real) powi k = 2 powi ((k + 1074) + (- 1022 - 52))"
    by simp
  also have "\<dots> = 2 powi (k + 1074) * ?u"
    by (rule powi_split)
  finally have split: "(2::real) powi k = 2 powi (k + 1074) * ?u" .
  have q: "(2::real) powi k / ?u = 2 powi (k + 1074)"
    by (rule quotient_of_product [OF u split])
  have "(2::real) powi (k + 1074) < 2 powi (- 1)"
    using assms by (intro power_int_strict_increasing) auto
  then have "(2::real) powi (k + 1074) < 1 / 2"
    by (simp add: power_int_minus)
  moreover have "0 \<le> (2::real) powi (k + 1074)"
    by simp
  ultimately have r: "round_to_even ((2::real) powi (k + 1074)) = 0"
    by (intro round_to_even_small)
  have "\<not> (2::real) powi k < 0"
    by (simp add: not_less)
  then show ?thesis
    unfolding binary64_def Let_def e q r by (simp add: signed_zero_def)
qed

subsection \<open>The orthographic samples, evaluated in exact arithmetic\<close>

lemmas differences = xd1_def yd1_def xd2_def yd2_def col_def sub2_def

lemma ex_lengths: "3 \<le> length ex_x1" "3 \<le> length ex_x2"
  by (simp_all add: ex_x1_def ex_x2_def)

lemma ex_first_columns:
  "col ex_x1 0 = Vec2 (Fin 0) (Fin (- 1))" "col ex_x2 0 = Vec2 (Fin 1) (Fin 1)"
  by (simp_all add: col_def ex_x1_def ex_x2_def)

lemma ex_columns:
  "col ex_x1 0 = Vec2 (Fin 0) (Fin (- 1))" "col ex_x1 (Suc 0) = Vec2 (Fin (- 2)) (Fin 0)"
  "col ex_x1 2 = Vec2 (Fin 2) (Fin 2)"
  by (simp_all add: col_def ex_x1_def)

lemma ex_differences:
  "xd1 exact ex_x1 = Vec2 (Fin (- 2)) (Fin 1)" "yd1 exact ex_x1 = Vec2 (Fin 2) (Fin 3)"
  "xd2 exact ex_x2 = Vec2 (Fin (- (14 / 5))) (Fin 1)" "yd2 exact ex_x2 = Vec2 (Fin (6 / 5)) (Fin 3)"
  by (simp_all add: differences ex_x1_def ex_x2_def operations)

lemma ex_denom: "denom exact ex_x1 = Fin (- 8)"
  by (simp add: denom_def ex_differences operations)

lemma ex_coefficients:
  "aac exact ex_x1 ex_x2 = Fin (- (6 / 5))" "aad exact ex_x1 ex_x2 = MZero"
  "bbc exact ex_x1 ex_x2 = Fin (2 / 5)" "bbd exact ex_x1 ex_x2 = Fin (- 1)"
  by (simp_all add: aac_def aad_def bbc_def bbd_def ex_denom ex_differences operations)

lemma ex_squares:
  "aac_sq exact ex_x1 ex_x2 = Fin (36 / 25)" "dd_2 exact ex_x1 ex_x2 = Fin (- (3 / 5))"
  "dd_1c exact ex_x1 ex_x2 = Fin (- (4 / 5))" "dd_0 exact ex_x1 ex_x2 = Fin (3 / 5)"
  "tmp_csol exact ex_x1 ex_x2 = Fin (- (3 / 5))"
  by (simp_all add: aac_sq_def dd_2_def dd_1c_def dd_0_def tmp_csol_def ex_coefficients
        operations)

lemma ex_quartic:
  "d4_4 exact ex_x1 ex_x2 = Fin 1" "d4_2 exact ex_x1 ex_x2 = Fin (- (34 / 25))"
  "d4_0 exact ex_x1 ex_x2 = Fin (9 / 25)"
  by (simp_all add: d4_4_def d4_2_def d4_0_def ex_squares operations)

lemma ex_discriminant: "discriminant exact ex_x1 ex_x2 = Fin (256 / 625)"
  by (simp add: discriminant_def ex_quartic operations)

lemma sqrt_square: "0 \<le> a \<Longrightarrow> sqrt (a * a) = a"
  by simp

lemma ex_tmp: "tmp exact ex_x1 ex_x2 = Fin (16 / 25)"
proof -
  have "sqrt (256 / 625) = (16 / 25 :: real)"
    using sqrt_square [of "16 / 25"] by simp
  then show ?thesis
    by (simp add: tmp_def ex_discriminant operations)
qed

lemma ex_roots:
  "fadd exact (d4_2 exact ex_x1 ex_x2) (tmp exact ex_x1 ex_x2) = Fin (- (18 / 25))"
  "fsub exact (d4_2 exact ex_x1 ex_x2) (tmp exact ex_x1 ex_x2) = Fin (- 2)"
  by (simp_all add: ex_quartic ex_tmp operations)

lemma ex_dsol:
  "dsol exact ex_x1 ex_x2 (Fin (- (18 / 25))) = Fin (3 / 5)"
  "dsol exact ex_x1 ex_x2 (Fin (- 2)) = Fin 1"
proof -
  have "sqrt (9 / 25) = (3 / 5 :: real)"
    using sqrt_square [of "3 / 5"] by simp
  then show "dsol exact ex_x1 ex_x2 (Fin (- (18 / 25))) = Fin (3 / 5)"
    by (simp add: dsol_def ex_quartic operations)
  show "dsol exact ex_x1 ex_x2 (Fin (- 2)) = Fin 1"
    by (simp add: dsol_def ex_quartic operations)
qed

lemma ex_csol:
  "csol exact ex_x1 ex_x2 (Fin (- (18 / 25))) = Fin (4 / 5)"
  "csol exact ex_x1 ex_x2 (Fin (- 2)) = Fin 0"
  by (simp_all add: csol_def ex_dsol ex_squares ex_coefficients operations)

lemma ex_asol:
  "asol exact ex_x1 ex_x2 (Fin (- (18 / 25))) = Fin (- (24 / 25))"
  "asol exact ex_x1 ex_x2 (Fin (- 2)) = MZero"
  by (simp_all add: asol_def ex_csol ex_dsol ex_coefficients operations)

lemma ex_bsol:
  "bsol exact ex_x1 ex_x2 (Fin (- (18 / 25))) = Fin (- (7 / 25))"
  "bsol exact ex_x1 ex_x2 (Fin (- 2)) = Fin (- 1)"
  by (simp_all add: bsol_def ex_csol ex_dsol ex_coefficients operations)

lemma ex_esol:
  "esol exact ex_x1 ex_x2 (Fin (- (18 / 25))) = Fin (- (42 / 25))"
  "esol exact ex_x1 ex_x2 (Fin (- 2)) = Fin (- 2)"
  by (simp_all add: esol_def ex_asol ex_bsol ex_csol ex_dsol ex_first_columns operations)

lemmas ex_solution = ex_roots ex_asol ex_bsol ex_csol ex_dsol ex_esol

lemma ex_candidates:
  "ThreePointsRelativePose exact ex_x1 ex_x2 E =
     Some (E @ [\<lparr> m00 = Fin 0, m01 = Fin 0, m02 = Fin (- (24 / 25)),
                  m10 = Fin 0, m11 = Fin 0, m12 = Fin (- (7 / 25)),
                  m20 = Fin (4 / 5), m21 = Fin (3 / 5), m22 = Fin (- (42 / 25)) \<rparr>,
                \<lparr> m00 = Fin 0, m01 = Fin 0, m02 = MZero,
                  m10 = Fin 0, m11 = Fin 0, m12 = Fin (- 1),
                  m20 = Fin 0, m21 = Fin 1, m22 = Fin (- 2) \<rparr>])"
  by (simp add: ThreePointsRelativePose_Some ex_lengths ComputeEssentialMatrix_def ex_solution)

text \<open>The sample with the quotient \<open>0 / 0\<close>.\<close>

lemma nan_lengths: "3 \<le> length nan_x1" "3 \<le> length nan_x2"
  by (simp_all add: nan_x1_def nan_x2_def)

lemma nan_differences:
  "xd1 exact nan_x1 = Vec2 (Fin 1) (Fin 0)" "yd1 exact nan_x1 = Vec2 (Fin 0) (Fin 1)"
  "xd2 exact nan_x2 = Vec2 (Fin (1 / 2)) (Fin 0)" "yd2 exact nan_x2 = Vec2 (Fin 0) (Fin 1)"
  by (simp_all add: differences nan_x1_def nan_x2_def operations)

lemma nan_denom: "denom exact nan_x1 = Fin 1"
  by (simp add: denom_def nan_differences operations)

lemma nan_coefficients:
  "aac exact nan_x1 nan_x2 = Fin (- (1 / 2))" "aad exact nan_x1 nan_x2 = Fin 0"
  "bbc exact nan_x1 nan_x2 = Fin 0" "bbd exact nan_x1 nan_x2 = Fin (- 1)"
  by (simp_all add: aac_def aad_def bbc_def bbd_def nan_denom nan_differences operations)

lemma nan_squares:
  "aac_sq exact nan_x1 nan_x2 = Fin (1 / 4)" "dd_2 exact nan_x1 nan_x2 = Fin (3 / 4)"
  "dd_1c exact nan_x1 nan_x2 = MZero" "dd_0 exact nan_x1 nan_x2 = Fin (- (3 / 4))"
  "tmp_csol exact nan_x1 nan_x2 = Fin (3 / 4)"
  by (simp_all add: aac_sq_def dd_2_def dd_1c_def dd_0_def tmp_csol_def nan_coefficients operations)

lemma nan_quartic:
  "d4_4 exact nan_x1 nan_x2 = Fin (9 / 16)" "d4_2 exact nan_x1 nan_x2 = Fin (- (9 / 8))"
  "d4_0 exact nan_x1 nan_x2 = Fin (9 / 16)"
  by (simp_all add: d4_4_def d4_2_def d4_0_def nan_squares operations)

lemma nan_tmp: "discriminant exact nan_x1 nan_x2 = Fin 0" "tmp exact nan_x1 nan_x2 = Fin 0"
  by (simp_all add: tmp_def discriminant_def nan_quartic operations)

lemma nan_roots:
  "fadd exact (d4_2 exact nan_x1 nan_x2) (tmp exact nan_x1 nan_x2) = Fin (- (9 / 8))"
  "fsub exact (d4_2 exact nan_x1 nan_x2) (tmp exact nan_x1 nan_x2) = Fin (- (9 / 8))"
  by (simp_all add: nan_quartic nan_tmp operations)

lemma nan_dsol: "dsol exact nan_x1 nan_x2 (Fin (- (9 / 8))) = Fin 1"
  by (simp add: dsol_def nan_quartic operations)

lemma nan_csol: "csol exact nan_x1 nan_x2 (Fin (- (9 / 8))) = NaN"
  by (simp add: csol_def nan_dsol nan_squares nan_coefficients operations)

lemma nan_candidate:
  "ComputeEssentialMatrix exact nan_x1 nan_x2 (Fin (- (9 / 8))) =
     \<lparr> m00 = Fin 0, m01 = Fin 0, m02 = NaN, m10 = Fin 0, m11 = Fin 0, m12 = NaN,
       m20 = NaN, m21 = Fin 1, m22 = NaN \<rparr>"
  by (simp add: ComputeEssentialMatrix_def asol_def bsol_def esol_def nan_csol nan_dsol NaN_absorbing)






text \<open>The degenerate sample.\<close>

lemma deg_lengths: "3 \<le> length deg_x1"
  by (simp add: deg_x1_def)

lemma deg_columns:
  "col deg_x1 0 = Vec2 (Fin 0) (Fin 0)" "col deg_x1 (Suc 0) = Vec2 (Fin 1) (Fin 1)"
  "col deg_x1 2 = Vec2 (Fin 2) (Fin 2)"
  by (simp_all add: col_def deg_x1_def)

lemma deg_denom: "denom exact deg_x1 = Fin 0"
  by (simp add: denom_def differences deg_x1_def operations)

subsection \<open>The sample of tiny numbers, evaluated in binary64 arithmetic\<close>

lemma tiny_positive: "0 < tiny"
  unfolding tiny_def by (rule zero_less_power_int) simp

lemma binary64_tiny: "binary64 tiny = Fin tiny"
  unfolding tiny_def by (rule binary64_powi_normal) simp_all

lemma binary64_tiny_square: "binary64 (tiny * tiny) = Fin 0"
proof -
  have "(2::real) powi (- 600 + - 600) = tiny * tiny"
    unfolding tiny_def by (rule powi_split)
  moreover have "binary64 (2 powi (- 600 + - 600)) = Fin 0"
    by (rule binary64_powi_underflow) simp
  ultimately show ?thesis
    by (simp only:)
qed

lemma tiny_differences:
  "xd1 binary64 tiny_x1 = Vec2 (Fin tiny) (Fin 0)" "yd1 binary64 tiny_x1 = Vec2 (Fin 0) (Fin tiny)"
  using tiny_positive
  by (simp_all add: xd1_def yd1_def sub2_def col_def tiny_x1_def fsub_def fadd_def rounded_def
        signed_zero_def binary64_tiny)

lemma tiny_denom: "denom binary64 tiny_x1 = Fin 0"
  using tiny_positive
  by (simp add: denom_def tiny_differences fsub_def fadd_def fmul_def rounded_def
        signed_zero_def binary64_tiny_square)

subsection \<open>The upright sample, evaluated\<close>

lemma ex_bearing_lengths: "3 \<le> length ex_a" "3 \<le> length ex_b"
  by (simp_all add: ex_a_def ex_b_def)

lemma ex_nullspace: "nullspace ex_leftCol ex_a ex_b = Vec4 (- 7 / 10) (1 / 10) (- 1 / 2) (1 / 2)"
  by (simp add: nullspace_def ex_leftCol_def)


lemma ex_upright_E:
  "upright_E ex_leftCol ex_a ex_b =
     \<lparr> m00 = 0, m01 = - 1 / 2, m02 = 0, m10 = 7 / 10, m11 = 0, m12 = 1 / 10,
       m20 = 0, m21 = 1 / 2, m22 = 0 \<rparr>"
  by (simp add: upright_E_eq ex_nullspace)

subsection \<open>The upright solver: epipolar relation\<close>





subsection \<open>The upright solver: zero pattern\<close>

text \<open>
  Claim C2. The matrix the upright solver returns is zero at \<open>(0,0)\<close>, \<open>(0,2)\<close>,
  \<open>(1,1)\<close>, \<open>(2,0)\<close> and \<open>(2,2)\<close>, and has \<open>n2\<close> at \<open>(0,1)\<close>, \<open>- n0\<close> at \<open>(1,0)\<close>,
  \<open>n1\<close> at \<open>(1,2)\<close> and \<open>n3\<close> at \<open>(2,1)\<close>, for the selected vector
  \<open>n = (n0, n1, n2, n3)\<close>.
\<close>

theorem upright_zero_pattern:
  assumes "3 \<le> length bearing_a" and "3 \<le> length bearing_b"
  shows "\<exists>E. Solve leftCol bearing_a bearing_b pvec_E = Some (pvec_E @ [E]) \<and>
     m00 E = 0 \<and> m02 E = 0 \<and> m11 E = 0 \<and> m20 E = 0 \<and> m22 E = 0 \<and>
     m01 E = v4_2 (nullspace leftCol bearing_a bearing_b) \<and>
     m10 E = - v4_0 (nullspace leftCol bearing_a bearing_b) \<and>
     m12 E = v4_1 (nullspace leftCol bearing_a bearing_b) \<and>
     m21 E = v4_3 (nullspace leftCol bearing_a bearing_b)"
  using assms by (simp add: Solve_Some upright_E_eq)

theorem upright_zero_pattern_witness:
  "Solve ex_leftCol ex_a ex_b [] =
     Some [\<lparr> m00 = 0, m01 = - 1 / 2, m02 = 0, m10 = 7 / 10, m11 = 0, m12 = 1 / 10,
             m20 = 0, m21 = 1 / 2, m22 = 0 \<rparr>]"
proof -
  from upright_zero_pattern [OF ex_bearing_lengths, of ex_leftCol "[]"]
  obtain E where "Solve ex_leftCol ex_a ex_b [] = Some [E]"
    and "m00 E = 0" "m02 E = 0" "m11 E = 0" "m20 E = 0" "m22 E = 0"
    and "m01 E = - 1 / 2" "m10 E = 7 / 10" "m12 E = 1 / 10" "m21 E = 1 / 2"
    by (auto simp: ex_nullspace)
  then show ?thesis
    by (cases E) simp
qed

subsection \<open>The orthographic solver: recovered parameters\<close>

lemma recovered_from_ComputeEssentialMatrix:
  "recovered_from rnd x1 x2 rt (ComputeEssentialMatrix rnd x1 x2 rt)"
  by (simp add: recovered_from_def ComputeEssentialMatrix_def dsol_def asol_def bsol_def)

lemma dot3d_exact_finite:
  assumes "is_finite a1" "is_finite a2" "is_finite a3" "is_finite b1" "is_finite b2" "is_finite b3"
  shows "is_finite (dot3d exact a1 a2 a3 b1 b2 b3)"
    and "val (dot3d exact a1 a2 a3 b1 b2 b3) = val a1 * val b1 + val a2 * val b2 + val a3 * val b3"
  using assms by (simp_all add: dot3d_def exact_finite)

lemma first_pair_residual_zero:
  assumes f: "finite_entries (ComputeEssentialMatrix exact x1 x2 rt)"
  shows "is_zero (ortho_residual exact (ComputeEssentialMatrix exact x1 x2 rt) (col x1 0) (col x2 0))"
proof -
  let ?a = "asol exact x1 x2 rt" and ?b = "bsol exact x1 x2 rt"
  let ?c = "csol exact x1 x2 rt" and ?d = "dsol exact x1 x2 rt"
  let ?e = "esol exact x1 x2 rt"
  let ?x = "v2_x (col x1 0)" and ?y = "v2_y (col x1 0)"
  let ?x' = "v2_x (col x2 0)" and ?y' = "v2_y (col x2 0)"
  from f have fin: "is_finite ?a" "is_finite ?b" "is_finite ?c" "is_finite ?d" "is_finite ?e"
    by (simp_all add: finite_entries_def ComputeEssentialMatrix_def)
  from fin(5) have "is_finite (fmul exact (fneg ?a) ?x) \<and> is_finite (fmul exact ?b ?y) \<and>
      is_finite (fmul exact ?c ?x') \<and> is_finite (fmul exact ?d ?y')"
    unfolding esol_def by (blast dest: finite_operands)
  then have pt: "is_finite ?x" "is_finite ?y" "is_finite ?x'" "is_finite ?y'"
    by (blast dest: finite_operands)+
  have e: "val ?e = - val ?a * val ?x - val ?b * val ?y - val ?c * val ?x' - val ?d * val ?y'"
    unfolding esol_def by (simp add: exact_finite fneg_finite fin pt)
  have z: "is_finite (Fin 0)" "is_finite (Fin 1)"
    by simp_all
  let ?r0 = "dot3d exact (Fin 0) (Fin 0) ?a ?x' ?y' (Fin 1)"
  let ?r1 = "dot3d exact (Fin 0) (Fin 0) ?b ?x' ?y' (Fin 1)"
  let ?r2 = "dot3d exact ?c ?d ?e ?x' ?y' (Fin 1)"
  have r: "is_finite ?r0" "is_finite ?r1" "is_finite ?r2"
    by (simp_all add: dot3d_exact_finite fin pt)
  have v: "val ?r0 = val ?a" "val ?r1 = val ?b"
      "val ?r2 = val ?c * val ?x' + val ?d * val ?y' + val ?e"
    by (simp_all add: dot3d_exact_finite fin pt)
  let ?res = "dot3d exact ?x ?y (Fin 1) ?r0 ?r1 ?r2"
  have "is_finite ?res" and "val ?res = val ?x * val ?a + val ?y * val ?b
      + (val ?c * val ?x' + val ?d * val ?y' + val ?e)"
    by (simp_all add: dot3d_exact_finite r v pt)
  then have "is_zero ?res"
    by (simp add: is_zero_iff_val e)
  then show ?thesis
    by (simp add: ortho_residual_def ComputeEssentialMatrix_def)
qed

text \<open>
  Claim C3, as stated, fails: it gives the residual zero to the first pair for each
  returned candidate, and on the sample \<open>nan_x1\<close>, \<open>nan_x2\<close>, on which no operation
  rounds, \<^verbatim>\<open>csol\<close> is \<open>0 / 0\<close>: both returned candidates have the coefficients
  \<open>asol\<close>, \<open>bsol\<close>, \<open>csol\<close> and \<open>esol\<close> NaN, and the residual of the first pair is
  NaN.
\<close>

theorem first_pair_residual_counterexample:
  "ThreePointsRelativePose exact nan_x1 nan_x2 [] =
     Some [\<lparr> m00 = Fin 0, m01 = Fin 0, m02 = NaN, m10 = Fin 0, m11 = Fin 0, m12 = NaN,
             m20 = NaN, m21 = Fin 1, m22 = NaN \<rparr>,
           \<lparr> m00 = Fin 0, m01 = Fin 0, m02 = NaN, m10 = Fin 0, m11 = Fin 0, m12 = NaN,
             m20 = NaN, m21 = Fin 1, m22 = NaN \<rparr>] \<and>
   ortho_residual exact
     \<lparr> m00 = Fin 0, m01 = Fin 0, m02 = NaN, m10 = Fin 0, m11 = Fin 0, m12 = NaN,
       m20 = NaN, m21 = Fin 1, m22 = NaN \<rparr> (col nan_x1 0) (col nan_x2 0) = NaN \<and>
   \<not> is_zero (ortho_residual exact
     \<lparr> m00 = Fin 0, m01 = Fin 0, m02 = NaN, m10 = Fin 0, m11 = Fin 0, m12 = NaN,
       m20 = NaN, m21 = Fin 1, m22 = NaN \<rparr> (col nan_x1 0) (col nan_x2 0))"
  by (simp add: ThreePointsRelativePose_Some nan_lengths nan_roots nan_candidate
        ortho_residual_def dot3d_def NaN_absorbing)

text \<open>
  Claim C3, amended. For each of the two roots, the candidate the orthographic solver
  appends has \<open>dsol = sqrt (- root / d4_4 / 2)\<close>, \<open>asol = aac * csol + aad * dsol\<close> and
  \<open>bsol = bbc * csol + bbd * dsol\<close>, in the arithmetic of doubles whatever the rounding;
  and in exact arithmetic the residual of the first pair \<open>(x1.col(0), x2.col(0))\<close> is
  zero for each returned candidate whose coefficients are finite. The residual is
  \<open>asol * x + bsol * y + csol * x' + dsol * y' + esol\<close> for the first-image point
  \<open>(x, y)\<close> and the second-image point \<open>(x', y')\<close>.
\<close>

theorem orthographic_parameters:
  assumes "3 \<le> length x1" and "3 \<le> length x2"
  shows "\<exists>c1 c2. ThreePointsRelativePose rnd x1 x2 E = Some (E @ [c1, c2]) \<and>
     recovered_from rnd x1 x2 (fadd rnd (d4_2 rnd x1 x2) (tmp rnd x1 x2)) c1 \<and>
     recovered_from rnd x1 x2 (fsub rnd (d4_2 rnd x1 x2) (tmp rnd x1 x2)) c2 \<and>
     (rnd = exact \<longrightarrow>
        (finite_entries c1 \<longrightarrow> is_zero (ortho_residual exact c1 (col x1 0) (col x2 0))) \<and>
        (finite_entries c2 \<longrightarrow> is_zero (ortho_residual exact c2 (col x1 0) (col x2 0))))"
  using assms
  by (simp add: ThreePointsRelativePose_Some recovered_from_ComputeEssentialMatrix
        first_pair_residual_zero)

theorem orthographic_parameters_witness:
  "ThreePointsRelativePose exact ex_x1 ex_x2 [] =
     Some [\<lparr> m00 = Fin 0, m01 = Fin 0, m02 = Fin (- (24 / 25)),
             m10 = Fin 0, m11 = Fin 0, m12 = Fin (- (7 / 25)),
             m20 = Fin (4 / 5), m21 = Fin (3 / 5), m22 = Fin (- (42 / 25)) \<rparr>,
           \<lparr> m00 = Fin 0, m01 = Fin 0, m02 = MZero,
             m10 = Fin 0, m11 = Fin 0, m12 = Fin (- 1),
             m20 = Fin 0, m21 = Fin 1, m22 = Fin (- 2) \<rparr>] \<and>
   is_zero (ortho_residual exact
     \<lparr> m00 = Fin 0, m01 = Fin 0, m02 = Fin (- (24 / 25)),
       m10 = Fin 0, m11 = Fin 0, m12 = Fin (- (7 / 25)),
       m20 = Fin (4 / 5), m21 = Fin (3 / 5), m22 = Fin (- (42 / 25)) \<rparr>
     (Vec2 (Fin 0) (Fin (- 1))) (Vec2 (Fin 1) (Fin 1))) \<and>
   is_zero (ortho_residual exact
     \<lparr> m00 = Fin 0, m01 = Fin 0, m02 = MZero,
       m10 = Fin 0, m11 = Fin 0, m12 = Fin (- 1),
       m20 = Fin 0, m21 = Fin 1, m22 = Fin (- 2) \<rparr>
     (Vec2 (Fin 0) (Fin (- 1))) (Vec2 (Fin 1) (Fin 1)))"
  using orthographic_parameters [OF ex_lengths, of exact "[]"]
  by (simp add: ex_candidates ex_first_columns finite_entries_def)

text \<open>The side matters: with the second-image point on the left the first candidate of
  the sample has a residual different from zero.\<close>

lemma ex_residual_other_side:
  "ortho_residual exact
     \<lparr> m00 = Fin 0, m01 = Fin 0, m02 = Fin (- (24 / 25)),
       m10 = Fin 0, m11 = Fin 0, m12 = Fin (- (7 / 25)),
       m20 = Fin (4 / 5), m21 = Fin (3 / 5), m22 = Fin (- (42 / 25)) \<rparr>
     (Vec2 (Fin 1) (Fin 1)) (Vec2 (Fin 0) (Fin (- 1))) = Fin (- (88 / 25))"
  by (simp add: ortho_residual_def dot3d_def operations)

subsection \<open>The orthographic solver: layout and order of the candidates\<close>

text \<open>
  Claim C4. Every candidate of the orthographic solver has the layout
  row 0 = \<open>(0, 0, asol)\<close>, row 1 = \<open>(0, 0, bsol)\<close>, row 2 = \<open>(csol, dsol, esol)\<close>, and
  the candidate of the root \<open>d4_2 + tmp\<close> is appended before that of \<open>d4_2 - tmp\<close>.
\<close>

theorem orthographic_layout_and_order:
  assumes "3 \<le> length x1" and "3 \<le> length x2"
  shows "ThreePointsRelativePose rnd x1 x2 E =
     Some (E @
       [\<lparr> m00 = Fin 0, m01 = Fin 0,
          m02 = asol rnd x1 x2 (fadd rnd (d4_2 rnd x1 x2) (tmp rnd x1 x2)),
          m10 = Fin 0, m11 = Fin 0,
          m12 = bsol rnd x1 x2 (fadd rnd (d4_2 rnd x1 x2) (tmp rnd x1 x2)),
          m20 = csol rnd x1 x2 (fadd rnd (d4_2 rnd x1 x2) (tmp rnd x1 x2)),
          m21 = dsol rnd x1 x2 (fadd rnd (d4_2 rnd x1 x2) (tmp rnd x1 x2)),
          m22 = esol rnd x1 x2 (fadd rnd (d4_2 rnd x1 x2) (tmp rnd x1 x2)) \<rparr>,
        \<lparr> m00 = Fin 0, m01 = Fin 0,
          m02 = asol rnd x1 x2 (fsub rnd (d4_2 rnd x1 x2) (tmp rnd x1 x2)),
          m10 = Fin 0, m11 = Fin 0,
          m12 = bsol rnd x1 x2 (fsub rnd (d4_2 rnd x1 x2) (tmp rnd x1 x2)),
          m20 = csol rnd x1 x2 (fsub rnd (d4_2 rnd x1 x2) (tmp rnd x1 x2)),
          m21 = dsol rnd x1 x2 (fsub rnd (d4_2 rnd x1 x2) (tmp rnd x1 x2)),
          m22 = esol rnd x1 x2 (fsub rnd (d4_2 rnd x1 x2) (tmp rnd x1 x2)) \<rparr>])"
  using assms by (simp add: ThreePointsRelativePose_Some ComputeEssentialMatrix_def)

theorem orthographic_layout_and_order_witness:
  "ThreePointsRelativePose exact ex_x1 ex_x2 [] =
     Some [\<lparr> m00 = Fin 0, m01 = Fin 0, m02 = Fin (- (24 / 25)),
             m10 = Fin 0, m11 = Fin 0, m12 = Fin (- (7 / 25)),
             m20 = Fin (4 / 5), m21 = Fin (3 / 5), m22 = Fin (- (42 / 25)) \<rparr>,
           \<lparr> m00 = Fin 0, m01 = Fin 0, m02 = MZero,
             m10 = Fin 0, m11 = Fin 0, m12 = Fin (- 1),
             m20 = Fin 0, m21 = Fin 1, m22 = Fin (- 2) \<rparr>]"
  using orthographic_layout_and_order [OF ex_lengths, of exact "[]"]
  by (simp add: ex_solution)

subsection \<open>Number of candidates\<close>

text \<open>
  Claim C5. On a sample with a non-degenerate first image (\<open>denom\<close> is not zero) and
  a discriminant that is not negative, the orthographic solver appends exactly two
  candidates; the upright solver appends exactly one on every sample.
\<close>

theorem candidate_count:
  "(3 \<le> length x1 \<and> 3 \<le> length x2 \<and> \<not> is_zero (denom rnd x1) \<and>
      ge_zero (discriminant rnd x1 x2) \<longrightarrow>
      (\<exists>c1 c2. ThreePointsRelativePose rnd x1 x2 E = Some (E @ [c1, c2]))) \<and>
   (3 \<le> length bearing_a \<and> 3 \<le> length bearing_b \<longrightarrow>
      (\<exists>c. Solve leftCol bearing_a bearing_b pvec_E = Some (pvec_E @ [c])))"
  by (simp add: ThreePointsRelativePose_Some Solve_Some)

theorem candidate_count_witness:
  "\<not> is_zero (denom exact ex_x1) \<and> ge_zero (discriminant exact ex_x1 ex_x2) \<and>
   (\<exists>c1 c2. ThreePointsRelativePose exact ex_x1 ex_x2 [] = Some [c1, c2]) \<and>
   (\<exists>c. Solve ex_leftCol ex_a ex_b [] = Some [c])"
proof -
  have h1: "\<not> is_zero (denom exact ex_x1)"
    by (simp add: ex_denom)
  have h2: "ge_zero (discriminant exact ex_x1 ex_x2)"
    by (simp add: ex_discriminant)
  from candidate_count [of ex_x1 ex_x2 exact "[]" ex_a ex_b ex_leftCol "[]"]
    ex_lengths ex_bearing_lengths h1 h2
  show ?thesis by simp
qed

subsection \<open>The denominator of the orthographic solver\<close>

lemma collinear3_iff:
  "collinear3 p q r \<longleftrightarrow>
     (val (v2_x q) - val (v2_x p)) * (val (v2_y r) - val (v2_y p))
       - (val (v2_y q) - val (v2_y p)) * (val (v2_x r) - val (v2_x p)) = 0"
proof
  let ?px = "val (v2_x p)" and ?py = "val (v2_y p)"
  let ?ux = "val (v2_x q) - val (v2_x p)" and ?uy = "val (v2_y q) - val (v2_y p)"
  let ?vx = "val (v2_x r) - val (v2_x p)" and ?vy = "val (v2_y r) - val (v2_y p)"
  assume det: "?ux * ?vy - ?uy * ?vx = 0"
  show "collinear3 p q r"
  proof (cases "?ux = 0 \<and> ?uy = 0")
    case False
    let ?c = "- (- ?uy * ?px + ?ux * ?py)"
    from False have "(- ?uy, ?ux) \<noteq> (0, 0)"
      by auto
    moreover have "on_line (- ?uy) ?ux ?c p"
      by (simp add: on_line_def)
    moreover have "on_line (- ?uy) ?ux ?c q"
      by (simp add: on_line_def algebra_simps)
    moreover have "on_line (- ?uy) ?ux ?c r"
      using det by (simp add: on_line_def algebra_simps)
    ultimately show ?thesis
      unfolding collinear3_def by blast
  next
    case u0: True
    show ?thesis
    proof (cases "?vx = 0 \<and> ?vy = 0")
      case False
      let ?c = "- (- ?vy * ?px + ?vx * ?py)"
      from False have "(- ?vy, ?vx) \<noteq> (0, 0)"
        by auto
      moreover have "on_line (- ?vy) ?vx ?c p"
        by (simp add: on_line_def)
      moreover have "on_line (- ?vy) ?vx ?c r"
        by (simp add: on_line_def algebra_simps)
      moreover have "on_line (- ?vy) ?vx ?c q"
        using u0 by (simp add: on_line_def algebra_simps)
      ultimately show ?thesis
        unfolding collinear3_def by blast
    next
      case True
      have "((1::real), (0::real)) \<noteq> (0, 0)"
        by simp
      moreover have "on_line 1 0 (- ?px) p"
        by (simp add: on_line_def)
      moreover have "on_line 1 0 (- ?px) q" and "on_line 1 0 (- ?px) r"
        using u0 True by (simp_all add: on_line_def)
      ultimately show ?thesis
        unfolding collinear3_def by blast
    qed
  qed
next
  let ?ux = "val (v2_x q) - val (v2_x p)" and ?uy = "val (v2_y q) - val (v2_y p)"
  let ?vx = "val (v2_x r) - val (v2_x p)" and ?vy = "val (v2_y r) - val (v2_y p)"
  assume "collinear3 p q r"
  then obtain a b c where ab: "(a, b) \<noteq> (0, 0)"
    and lp: "a * val (v2_x p) + b * val (v2_y p) + c = 0"
    and lq: "a * val (v2_x q) + b * val (v2_y q) + c = 0"
    and lr: "a * val (v2_x r) + b * val (v2_y r) + c = 0"
    unfolding collinear3_def on_line_def by blast
  from lp lq have u: "a * ?ux + b * ?uy = 0"
    by (simp add: algebra_simps)
  from lp lr have v: "a * ?vx + b * ?vy = 0"
    by (simp add: algebra_simps)
  have "a * (?ux * ?vy - ?uy * ?vx) = (a * ?ux + b * ?uy) * ?vy - (a * ?vx + b * ?vy) * ?uy"
    by (simp add: algebra_simps)
  with u v have a0: "a * (?ux * ?vy - ?uy * ?vx) = 0"
    by simp
  have "b * (?ux * ?vy - ?uy * ?vx) = (a * ?vx + b * ?vy) * ?ux - (a * ?ux + b * ?uy) * ?vx"
    by (simp add: algebra_simps)
  with u v have b0: "b * (?ux * ?vy - ?uy * ?vx) = 0"
    by simp
  from ab a0 b0 show "?ux * ?vy - ?uy * ?vx = 0"
    by auto
qed

lemma denom_exact_finite:
  assumes "finite2 (col x1 0)" and "finite2 (col x1 1)" and "finite2 (col x1 2)"
  shows "is_finite (denom exact x1)"
    and "val (denom exact x1) =
       (val (v2_x (col x1 1)) - val (v2_x (col x1 0))) * (val (v2_y (col x1 2)) - val (v2_y (col x1 0)))
       - (val (v2_y (col x1 1)) - val (v2_y (col x1 0))) * (val (v2_x (col x1 2)) - val (v2_x (col x1 0)))"
  using assms
  by (simp_all add: denom_def xd1_def yd1_def sub2_def finite2_def exact_finite)

text \<open>
  Claim C6, as stated, fails: it has \<open>denom = 0\<close> exactly when the three points of the
  first image are collinear, and in binary64 arithmetic the three points
  \<open>(0, 0)\<close>, \<open>(tiny, 0)\<close>, \<open>(0, tiny)\<close> with \<open>tiny = 2 powi (- 600)\<close>, which are
  binary64 numbers and are not collinear, have \<open>denom = 0\<close>: the product
  \<open>tiny * tiny = 2 powi (- 1200)\<close> underflows.
\<close>

theorem denom_zero_counterexample:
  "finite2 (col tiny_x1 0) \<and> finite2 (col tiny_x1 1) \<and> finite2 (col tiny_x1 2) \<and>
   is_zero (denom binary64 tiny_x1) \<and>
   \<not> collinear3 (col tiny_x1 0) (col tiny_x1 1) (col tiny_x1 2)"
proof -
  have f: "finite2 (col tiny_x1 0)" "finite2 (col tiny_x1 1)" "finite2 (col tiny_x1 2)"
    by (simp_all add: col_def tiny_x1_def finite2_def)
  have z: "is_zero (denom binary64 tiny_x1)"
    by (simp add: tiny_denom)
  have n: "\<not> collinear3 (col tiny_x1 0) (col tiny_x1 1) (col tiny_x1 2)"
    using tiny_positive by (simp add: collinear3_iff col_def tiny_x1_def)
  from f z n show ?thesis
    by blast
qed

text \<open>
  Claim C6, amended. \<open>denom\<close> is the 2D cross product of
  \<open>xd1 = x1.col(1) - x1.col(0)\<close> and \<open>yd1 = x1.col(2) - x1.col(0)\<close>, that is
  \<open>xd1.x * yd1.y - xd1.y * yd1.x\<close>, and each of \<open>aac\<close>, \<open>aad\<close>, \<open>bbc\<close>, \<open>bbd\<close> is a
  quotient by \<open>denom\<close>, in the arithmetic of doubles whatever the rounding; in exact
  arithmetic, for three points of finite coordinates, \<open>denom\<close> is zero exactly when the
  three points of the first image are collinear.
\<close>

theorem denom_cross_product:
  assumes "3 \<le> length x1" and "3 \<le> length x2"
  shows "xd1 rnd x1 = sub2 rnd (col x1 1) (col x1 0) \<and>
     yd1 rnd x1 = sub2 rnd (col x1 2) (col x1 0) \<and>
     denom rnd x1 =
       fsub rnd (fmul rnd (v2_x (xd1 rnd x1)) (v2_y (yd1 rnd x1)))
                (fmul rnd (v2_y (xd1 rnd x1)) (v2_x (yd1 rnd x1))) \<and>
     denom rnd x1 = cross2 rnd (xd1 rnd x1) (yd1 rnd x1) \<and>
     aac rnd x1 x2 =
       fdiv rnd (fsub rnd (fmul rnd (v2_y (xd1 rnd x1)) (v2_x (yd2 rnd x2)))
                          (fmul rnd (v2_x (xd2 rnd x2)) (v2_y (yd1 rnd x1)))) (denom rnd x1) \<and>
     aad rnd x1 x2 =
       fdiv rnd (fsub rnd (fmul rnd (v2_y (xd1 rnd x1)) (v2_y (yd2 rnd x2)))
                          (fmul rnd (v2_y (xd2 rnd x2)) (v2_y (yd1 rnd x1)))) (denom rnd x1) \<and>
     bbc rnd x1 x2 =
       fdiv rnd (fsub rnd (fmul rnd (v2_x (xd2 rnd x2)) (v2_x (yd1 rnd x1)))
                          (fmul rnd (v2_x (xd1 rnd x1)) (v2_x (yd2 rnd x2)))) (denom rnd x1) \<and>
     bbd rnd x1 x2 =
       fdiv rnd (fsub rnd (fmul rnd (v2_y (xd2 rnd x2)) (v2_x (yd1 rnd x1)))
                          (fmul rnd (v2_x (xd1 rnd x1)) (v2_y (yd2 rnd x2)))) (denom rnd x1) \<and>
     (finite2 (col x1 0) \<and> finite2 (col x1 1) \<and> finite2 (col x1 2) \<longrightarrow>
        (is_zero (denom exact x1) \<longleftrightarrow> collinear3 (col x1 0) (col x1 1) (col x1 2)))"
proof -
  have "is_zero (denom exact x1) \<longleftrightarrow> collinear3 (col x1 0) (col x1 1) (col x1 2)"
    if "finite2 (col x1 0)" and "finite2 (col x1 1)" and "finite2 (col x1 2)"
    using denom_exact_finite [OF that]
    by (simp add: is_zero_iff_val collinear3_iff)
  then show ?thesis
    by (simp add: xd1_def yd1_def denom_def cross2_def aac_def aad_def bbc_def bbd_def)
qed

theorem denom_cross_product_witness:
  "denom exact deg_x1 = Fin 0 \<and>
   collinear3 (Vec2 (Fin 0) (Fin 0)) (Vec2 (Fin 1) (Fin 1)) (Vec2 (Fin 2) (Fin 2)) \<and>
   denom exact ex_x1 = Fin (- 8) \<and>
   \<not> collinear3 (Vec2 (Fin 0) (Fin (- 1))) (Vec2 (Fin (- 2)) (Fin 0)) (Vec2 (Fin 2) (Fin 2)) \<and>
   aac exact ex_x1 ex_x2 = fdiv exact (Fin (48 / 5)) (Fin (- 8))"
proof -
  from denom_cross_product [OF deg_lengths ex_lengths(2), of exact]
  have "finite2 (col deg_x1 0) \<and> finite2 (col deg_x1 1) \<and> finite2 (col deg_x1 2) \<longrightarrow>
      (is_zero (denom exact deg_x1) \<longleftrightarrow> collinear3 (col deg_x1 0) (col deg_x1 1) (col deg_x1 2))"
    by blast
  then have A: "collinear3 (Vec2 (Fin 0) (Fin 0)) (Vec2 (Fin 1) (Fin 1)) (Vec2 (Fin 2) (Fin 2))"
    by (simp add: deg_columns deg_denom finite2_def)
  from denom_cross_product [OF ex_lengths, of exact]
  have "finite2 (col ex_x1 0) \<and> finite2 (col ex_x1 1) \<and> finite2 (col ex_x1 2) \<longrightarrow>
      (is_zero (denom exact ex_x1) \<longleftrightarrow> collinear3 (col ex_x1 0) (col ex_x1 1) (col ex_x1 2))"
    by blast
  then have B: "\<not> collinear3 (Vec2 (Fin 0) (Fin (- 1))) (Vec2 (Fin (- 2)) (Fin 0)) (Vec2 (Fin 2) (Fin 2))"
    by (simp add: ex_columns ex_denom finite2_def)
  have C: "aac exact ex_x1 ex_x2 = fdiv exact (Fin (48 / 5)) (Fin (- 8))"
    by (simp add: ex_coefficients operations)
  from A B C deg_denom ex_denom show ?thesis
    by blast
qed

subsection \<open>Degenerate samples give NaN, not an error\<close>












subsection \<open>The output vector is only appended to\<close>

text \<open>
  Claim C8. After a call of either solver the output vector starts with the elements it
  had before the call, unchanged and in their order; the candidates come after them.
\<close>

theorem output_append_only:
  "(3 \<le> length x1 \<and> 3 \<le> length x2 \<longrightarrow>
      (\<exists>E'. ThreePointsRelativePose rnd x1 x2 E = Some E' \<and>
            length E \<le> length E' \<and> take (length E) E' = E)) \<and>
   (3 \<le> length bearing_a \<and> 3 \<le> length bearing_b \<longrightarrow>
      (\<exists>E'. Solve leftCol bearing_a bearing_b pvec_E = Some E' \<and>
            length pvec_E \<le> length E' \<and> take (length pvec_E) E' = pvec_E))"
  by (simp add: ThreePointsRelativePose_Some Solve_Some)

theorem output_append_only_witness:
  "(\<exists>E'. ThreePointsRelativePose exact ex_x1 ex_x2 ex_prior = Some E' \<and>
         length ex_prior \<le> length E' \<and> take (length ex_prior) E' = ex_prior) \<and>
   (\<exists>E'. Solve ex_leftCol ex_a ex_b [Mat3_Zero, Mat3_Zero] = Some E' \<and>
         length [Mat3_Zero, Mat3_Zero] \<le> length E' \<and>
         take (length [Mat3_Zero, Mat3_Zero]) E' = [Mat3_Zero, Mat3_Zero])"
  using output_append_only [of ex_x1 ex_x2 exact ex_prior ex_a ex_b ex_leftCol "[Mat3_Zero, Mat3_Zero]"]
    ex_lengths ex_bearing_lengths
  by blast

subsection \<open>The orthographic solver never returns an empty answer\<close>

text \<open>
  Claim C9. On every sample, degenerate or with a negative discriminant alike, the
  orthographic solver appends exactly two candidates; it never leaves the output vector
  as it was.
\<close>

theorem orthographic_always_two:
  assumes "3 \<le> length x1" and "3 \<le> length x2"
  shows "(\<exists>c1 c2. ThreePointsRelativePose rnd x1 x2 E = Some (E @ [c1, c2])) \<and>
         ThreePointsRelativePose rnd x1 x2 E \<noteq> Some E"
  using assms by (simp add: ThreePointsRelativePose_Some)

theorem orthographic_always_two_witness:
  "is_zero (denom exact deg_x1) \<and>
   (\<exists>c1 c2. ThreePointsRelativePose exact deg_x1 ex_x2 [] = Some ([] @ [c1, c2])) \<and>
   ThreePointsRelativePose exact deg_x1 ex_x2 [] \<noteq> Some []"
  using orthographic_always_two [OF deg_lengths ex_lengths(2), of exact "[]"]
  by (simp add: deg_denom)

subsection \<open>Only the first three columns are read\<close>

lemma take3_cols:
  assumes "take 3 m' = take 3 m" and "3 \<le> length m"
  shows "3 \<le> length m'" and "col m' 0 = col m 0" and "col m' 1 = col m 1" and "col m' 2 = col m 2"
proof -
  from assms have "length (take 3 m') = 3"
    by simp
  then show "3 \<le> length m'"
    by simp
  have "\<And>i. i < 3 \<Longrightarrow> m' ! i = m ! i"
    using assms(1) by (metis nth_take)
  then show "col m' 0 = col m 0" and "col m' 1 = col m 1" and "col m' 2 = col m 2"
    by (simp_all add: col_def)
qed

lemma orthographic_cong:
  assumes x1: "col x1' 0 = col x1 0" "col x1' 1 = col x1 1" "col x1' 2 = col x1 2"
    and x2: "col x2' 0 = col x2 0" "col x2' 1 = col x2 1" "col x2' 2 = col x2 2"
  shows "d4_2 rnd x1' x2' = d4_2 rnd x1 x2" and "tmp rnd x1' x2' = tmp rnd x1 x2"
    and "ComputeEssentialMatrix rnd x1' x2' rt = ComputeEssentialMatrix rnd x1 x2 rt"
proof -
  have d: "xd1 rnd x1' = xd1 rnd x1" "yd1 rnd x1' = yd1 rnd x1"
    "xd2 rnd x2' = xd2 rnd x2" "yd2 rnd x2' = yd2 rnd x2"
    using x1 x2 by (simp_all add: xd1_def yd1_def xd2_def yd2_def)
  have den: "denom rnd x1' = denom rnd x1"
    by (simp add: denom_def d)
  have co: "aac rnd x1' x2' = aac rnd x1 x2" "aad rnd x1' x2' = aad rnd x1 x2"
    "bbc rnd x1' x2' = bbc rnd x1 x2" "bbd rnd x1' x2' = bbd rnd x1 x2"
    by (simp_all add: aac_def aad_def bbc_def bbd_def d den)
  have sq: "aac_sq rnd x1' x2' = aac_sq rnd x1 x2"
    by (simp add: aac_sq_def co)
  have dd: "dd_2 rnd x1' x2' = dd_2 rnd x1 x2" "dd_1c rnd x1' x2' = dd_1c rnd x1 x2"
    "dd_0 rnd x1' x2' = dd_0 rnd x1 x2" "tmp_csol rnd x1' x2' = tmp_csol rnd x1 x2"
    by (simp_all add: dd_2_def dd_1c_def dd_0_def tmp_csol_def co sq)
  have d4: "d4_4 rnd x1' x2' = d4_4 rnd x1 x2" "d4_0 rnd x1' x2' = d4_0 rnd x1 x2"
    by (simp_all add: d4_4_def d4_0_def dd)
  show d42: "d4_2 rnd x1' x2' = d4_2 rnd x1 x2"
    by (simp add: d4_2_def dd)
  show "tmp rnd x1' x2' = tmp rnd x1 x2"
    by (simp add: tmp_def discriminant_def d4 d42)
  have ds: "dsol rnd x1' x2' rt = dsol rnd x1 x2 rt"
    by (simp add: dsol_def d4)
  have cs: "csol rnd x1' x2' rt = csol rnd x1 x2 rt"
    by (simp add: csol_def ds dd sq co)
  have ab: "asol rnd x1' x2' rt = asol rnd x1 x2 rt" "bsol rnd x1' x2' rt = bsol rnd x1 x2 rt"
    by (simp_all add: asol_def bsol_def ds cs co)
  have es: "esol rnd x1' x2' rt = esol rnd x1 x2 rt"
    using x1 x2 by (simp add: esol_def ab cs ds)
  show "ComputeEssentialMatrix rnd x1' x2' rt = ComputeEssentialMatrix rnd x1 x2 rt"
    by (simp add: ComputeEssentialMatrix_def ab cs ds es)
qed

lemma upright_cong:
  assumes a: "col a' 0 = col a 0" "col a' 1 = col a 1" "col a' 2 = col a 2"
    and b: "col b' 0 = col b 0" "col b' 1 = col b 1" "col b' 2 = col b 2"
  shows "upright_E leftCol a' b' = upright_E leftCol a b"
proof -
  have "action_matrix a' b' = action_matrix a b"
    using a b by (simp add: action_matrix_def A_row_def)
  then show ?thesis
    by (simp add: upright_E_def nullspace_def)
qed

text \<open>
  Claim C10. Two samples that agree on columns 0, 1 and 2 of both matrices give the same
  appended candidates, for the orthographic solver and for the upright solver: further
  columns are not read.
\<close>

theorem first_three_columns_only:
  "(3 \<le> length x1 \<and> 3 \<le> length x2 \<and> take 3 x1' = take 3 x1 \<and> take 3 x2' = take 3 x2 \<longrightarrow>
      (\<exists>cs. ThreePointsRelativePose rnd x1 x2 E = Some (E @ cs) \<and>
            ThreePointsRelativePose rnd x1' x2' E = Some (E @ cs))) \<and>
   (3 \<le> length bearing_a \<and> 3 \<le> length bearing_b \<and>
      take 3 bearing_a' = take 3 bearing_a \<and> take 3 bearing_b' = take 3 bearing_b \<longrightarrow>
      (\<exists>cs. Solve leftCol bearing_a bearing_b pvec_E = Some (pvec_E @ cs) \<and>
            Solve leftCol bearing_a' bearing_b' pvec_E = Some (pvec_E @ cs)))"
proof (intro conjI impI)
  assume h: "3 \<le> length x1 \<and> 3 \<le> length x2 \<and> take 3 x1' = take 3 x1 \<and> take 3 x2' = take 3 x2"
  then have c1: "3 \<le> length x1'" "col x1' 0 = col x1 0" "col x1' 1 = col x1 1" "col x1' 2 = col x1 2"
    using take3_cols [of x1' x1] by simp_all
  from h have c2: "3 \<le> length x2'" "col x2' 0 = col x2 0" "col x2' 1 = col x2 1" "col x2' 2 = col x2 2"
    using take3_cols [of x2' x2] by simp_all
  have "ThreePointsRelativePose rnd x1' x2' E = ThreePointsRelativePose rnd x1 x2 E"
    using h c1(1) c2(1)
    by (simp add: ThreePointsRelativePose_Some orthographic_cong [OF c1(2-4) c2(2-4)])
  with h show "\<exists>cs. ThreePointsRelativePose rnd x1 x2 E = Some (E @ cs) \<and>
            ThreePointsRelativePose rnd x1' x2' E = Some (E @ cs)"
    by (simp add: ThreePointsRelativePose_Some)
next
  assume h: "3 \<le> length bearing_a \<and> 3 \<le> length bearing_b \<and>
      take 3 bearing_a' = take 3 bearing_a \<and> take 3 bearing_b' = take 3 bearing_b"
  then have c1: "3 \<le> length bearing_a'" "col bearing_a' 0 = col bearing_a 0"
    "col bearing_a' 1 = col bearing_a 1" "col bearing_a' 2 = col bearing_a 2"
    using take3_cols [of bearing_a' bearing_a] by simp_all
  from h have c2: "3 \<le> length bearing_b'" "col bearing_b' 0 = col bearing_b 0"
    "col bearing_b' 1 = col bearing_b 1" "col bearing_b' 2 = col bearing_b 2"
    using take3_cols [of bearing_b' bearing_b] by simp_all
  have "Solve leftCol bearing_a' bearing_b' pvec_E = Solve leftCol bearing_a bearing_b pvec_E"
    using h c1(1) c2(1)
    by (simp add: Solve_Some upright_cong [OF c1(2-4) c2(2-4)])
  with h show "\<exists>cs. Solve leftCol bearing_a bearing_b pvec_E = Some (pvec_E @ cs) \<and>
            Solve leftCol bearing_a' bearing_b' pvec_E = Some (pvec_E @ cs)"
    by (simp add: Solve_Some)
qed

theorem first_three_columns_only_witness:
  "ThreePointsRelativePose exact ex_x1_4 ex_x2_4 [] =
     Some [\<lparr> m00 = Fin 0, m01 = Fin 0, m02 = Fin (- (24 / 25)),
             m10 = Fin 0, m11 = Fin 0, m12 = Fin (- (7 / 25)),
             m20 = Fin (4 / 5), m21 = Fin (3 / 5), m22 = Fin (- (42 / 25)) \<rparr>,
           \<lparr> m00 = Fin 0, m01 = Fin 0, m02 = MZero,
             m10 = Fin 0, m11 = Fin 0, m12 = Fin (- 1),
             m20 = Fin 0, m21 = Fin 1, m22 = Fin (- 2) \<rparr>] \<and>
   Solve ex_leftCol ex_a_4 ex_b_4 [] =
     Some [\<lparr> m00 = 0, m01 = - 1 / 2, m02 = 0, m10 = 7 / 10, m11 = 0, m12 = 1 / 10,
             m20 = 0, m21 = 1 / 2, m22 = 0 \<rparr>]"
proof -
  have t: "take 3 ex_x1_4 = take 3 ex_x1" "take 3 ex_x2_4 = take 3 ex_x2"
    "take 3 ex_a_4 = take 3 ex_a" "take 3 ex_b_4 = take 3 ex_b"
    by (simp_all add: ex_x1_4_def ex_x1_def ex_x2_4_def ex_x2_def ex_a_4_def ex_a_def
          ex_b_4_def ex_b_def)
  note first_three_columns_only [where ?x1.0 = ex_x1 and ?x2.0 = ex_x2 and x1' = ex_x1_4
      and x2' = ex_x2_4 and rnd = exact and E = "[]" and bearing_a = ex_a and bearing_b = ex_b
      and bearing_a' = ex_a_4 and bearing_b' = ex_b_4 and leftCol = ex_leftCol and pvec_E = "[]"]
  with t ex_lengths ex_bearing_lengths
  obtain cs ds where
    "ThreePointsRelativePose exact ex_x1 ex_x2 [] = Some ([] @ cs)"
    "ThreePointsRelativePose exact ex_x1_4 ex_x2_4 [] = Some ([] @ cs)"
    "Solve ex_leftCol ex_a ex_b [] = Some ([] @ ds)"
    "Solve ex_leftCol ex_a_4 ex_b_4 [] = Some ([] @ ds)"
    by blast
  then show ?thesis
    by (simp add: ex_candidates Solve_Some ex_bearing_lengths ex_upright_E)
qed

end
